theory Spec2Isabelle
  imports Complex_Main "HOL-Library.Multiset" "HOL-Library.Word"
begin

section \<open>Memory Cartography: the state logic of \<open>MemoryApp.tsx\<close>\<close>

text \<open>
  The component \<open>MemoryApp\<close> keeps a list of memory records and a few scalar slots in
  React state. Every handler is modelled as a function from the state before
  the call to the state after it, together with the list of HTTP requests it issued.
  What the browser and the backend contribute (the \<open>session\<close> query parameter, the date
  parser, the responses) is gathered in a record of parameters. The source file holds
  two revisions of the component; the model follows the first, the one that sends the
  session with every request.
\<close>

subsection \<open>Strings\<close>

text \<open>
  A JavaScript string is a sequence of 16-bit code units. \<open>lit\<close> turns a literal of the
  source, written with Latin-1 characters, into such a sequence.
\<close>

type_synonym code_unit = "16 word"
type_synonym jsstring = "code_unit list"

definition lit :: "string \<Rightarrow> jsstring" where
  "lit s = map of_char s"

text \<open>
  \<open>String.prototype.trim\<close> removes leading and trailing WhiteSpace and LineTerminator
  code units: TAB, LF, VT, FF, CR, SP, NBSP, the other members of Unicode category Zs
  (U+1680, U+2000 to U+200A, U+202F, U+205F, U+3000), LS, PS and the byte order mark.
\<close>

definition white_space_units :: "code_unit list" where
  "white_space_units =
     [0x0009, 0x000A, 0x000B, 0x000C, 0x000D, 0x0020, 0x00A0, 0x1680,
      0x2000, 0x2001, 0x2002, 0x2003, 0x2004, 0x2005, 0x2006, 0x2007,
      0x2008, 0x2009, 0x200A, 0x2028, 0x2029, 0x202F, 0x205F, 0x3000, 0xFEFF]"

definition is_white_space :: "code_unit \<Rightarrow> bool" where
  "is_white_space c = (c \<in> set white_space_units)"

definition trim :: "jsstring \<Rightarrow> jsstring" where
  "trim s = rev (dropWhile is_white_space (rev (dropWhile is_white_space s)))"

text \<open>
  \<open>s.replace(searchValue, replaceValue)\<close> with two strings: the first occurrence of
  \<open>searchValue\<close> is located (\<open>StringIndexOf\<close> from index 0); when there is none the
  string is returned as it is. Otherwise the match is replaced by the expansion of
  \<open>replaceValue\<close> as a replacement template (\<open>GetSubstitution\<close>): \<open>$$\<close> stands for one
  dollar sign, \<open>$&\<close> for the matched text, \<open>$`\<close> for the text before the match and
  \<open>$'\<close> for the text after it. A string pattern has no capture groups, so \<open>$1\<close>,
  \<open>$<name>\<close> and a dollar sign before any other code unit stand for themselves.
\<close>

fun StringIndexOf :: "jsstring \<Rightarrow> jsstring \<Rightarrow> nat option" where
  "StringIndexOf [] searchValue = (if searchValue = [] then Some 0 else None)"
| "StringIndexOf (c # cs) searchValue =
     (if take (length searchValue) (c # cs) = searchValue then Some 0
      else map_option Suc (StringIndexOf cs searchValue))"

fun GetSubstitution :: "jsstring \<Rightarrow> jsstring \<Rightarrow> nat \<Rightarrow> jsstring \<Rightarrow> jsstring" where
  "GetSubstitution matched str position (c # d # template) =
     (if c = 0x24 \<and> d = 0x24 then
        0x24 # GetSubstitution matched str position template
      else if c = 0x24 \<and> d = 0x60 then
        take position str @ GetSubstitution matched str position template
      else if c = 0x24 \<and> d = 0x26 then
        matched @ GetSubstitution matched str position template
      else if c = 0x24 \<and> d = 0x27 then
        drop (min (position + length matched) (length str)) str
          @ GetSubstitution matched str position template
      else c # GetSubstitution matched str position (d # template))"
| "GetSubstitution matched str position template = template"

definition replace :: "jsstring \<Rightarrow> jsstring \<Rightarrow> jsstring \<Rightarrow> jsstring" where
  "replace s searchValue replaceValue =
     (case StringIndexOf s searchValue of
        None \<Rightarrow> s
      | Some pos \<Rightarrow>
          take pos s @ GetSubstitution searchValue s pos replaceValue
            @ drop (pos + length searchValue) s)"

subsection \<open>Memory records\<close>

text \<open>
  The interface \<open>Memory\<close>. An optional property is an \<open>option\<close>, \<open>None\<close> when the
  property is absent. Identifiers are integers. Weights are finite numbers and are
  modelled as reals: the program only tests them against zero and takes the sign of the
  difference of two of them.
\<close>

record Memory =
  id_m :: int
  title :: jsstring
  location :: jsstring
  date :: jsstring
  keywords_m :: "jsstring list option"
  type_m :: jsstring
  description :: "jsstring option"
  weight :: "real option"
  filename :: "jsstring option"
  image_url :: "jsstring option"
  original_path :: "jsstring option"
  processed_path :: "jsstring option"
  openai_keywords :: "jsstring list option"
  openai_description :: "jsstring option"
  impact_weight :: "real option"
  detected_objects :: "jsstring list option"
  relevance_score :: "real option"

text \<open>
  The argument \<open>updatedMemory\<close> of \<open>handleLocationUpdate\<close> has type \<open>any\<close>: an object
  that may carry any subset of the properties of a memory.
\<close>

record MemoryUpdate =
  u_id :: "int option"
  u_title :: "jsstring option"
  u_location :: "jsstring option"
  u_date :: "jsstring option"
  u_keywords :: "jsstring list option"
  u_type :: "jsstring option"
  u_description :: "jsstring option"
  u_weight :: "real option"
  u_filename :: "jsstring option"
  u_image_url :: "jsstring option"
  u_original_path :: "jsstring option"
  u_processed_path :: "jsstring option"
  u_openai_keywords :: "jsstring list option"
  u_openai_description :: "jsstring option"
  u_impact_weight :: "real option"
  u_detected_objects :: "jsstring list option"
  u_relevance_score :: "real option"

datatype SortOption = Weight | Date | Relevance

datatype MemoryType = User | Public

subsection \<open>Sorting\<close>

text \<open>
  \<open>Array.prototype.sort\<close> with a comparison function. The function returns a number,
  \<open>None\<close> standing for NaN, which \<open>SortCompare\<close> reads as \<open>+0\<close>. The sort is stable: an
  element moves behind another one only when the comparison function returns a positive
  number for the pair. \<open>array_sort\<close> inserts the elements from the last to the first,
  each in front of the already sorted rest and then behind every element it compares
  greater than.

  For a consistent comparison function (one that orders the elements by a key) the
  language prescribes the result, and \<open>array_sort\<close> computes it. For an inconsistent
  one, such as the date comparison on a list where some dates parse and some do not,
  the language leaves the order to the engine: \<open>array_sort\<close> is then one way to
  permute the list, and an engine may permute it otherwise. The properties of the
  order proved below are stated for consistent comparison functions only.
\<close>

type_synonym 'a comparefn = "'a \<Rightarrow> 'a \<Rightarrow> real option"

definition SortCompare :: "'a comparefn \<Rightarrow> 'a \<Rightarrow> 'a \<Rightarrow> real" where
  "SortCompare comparefn x y = (case comparefn x y of None \<Rightarrow> 0 | Some v \<Rightarrow> v)"

fun sort_insert :: "'a comparefn \<Rightarrow> 'a \<Rightarrow> 'a list \<Rightarrow> 'a list" where
  "sort_insert comparefn x [] = [x]"
| "sort_insert comparefn x (y # ys) =
     (if SortCompare comparefn x y > 0 then y # sort_insert comparefn x ys
      else x # y # ys)"

definition array_sort :: "'a comparefn \<Rightarrow> 'a list \<Rightarrow> 'a list" where
  "array_sort comparefn xs = foldr (sort_insert comparefn) xs []"

text \<open>\<open>w || d\<close> on an optional number: \<open>undefined\<close> and \<open>0\<close> are falsy.\<close>

definition number_or :: "real option \<Rightarrow> real \<Rightarrow> real" where
  "number_or w d = (case w of None \<Rightarrow> d | Some x \<Rightarrow> if x = 0 then d else x)"

text \<open>
  The comparison function of \<open>sortMemories\<close>. \<open>getTime s\<close> is
  \<open>new Date(s).getTime()\<close>, \<open>None\<close> for an invalid date; a difference with NaN is NaN.
\<close>

definition compareMemories ::
  "(jsstring \<Rightarrow> real option) \<Rightarrow> SortOption \<Rightarrow> Memory comparefn" where
  "compareMemories getTime sortOption a b =
     (if sortOption = Weight then
        Some (number_or (weight b) 1.0 - number_or (weight a) 1.0)
      else if sortOption = Date then
        (case getTime (date b) of
           None \<Rightarrow> None
         | Some tb \<Rightarrow> (case getTime (date a) of None \<Rightarrow> None | Some ta \<Rightarrow> Some (tb - ta)))
      else Some 0)"

definition sortMemories ::
  "(jsstring \<Rightarrow> real option) \<Rightarrow> Memory list \<Rightarrow> SortOption \<Rightarrow> Memory list" where
  "sortMemories getTime memoriesToSort sortOption =
     array_sort (compareMemories getTime sortOption) memoriesToSort"

text \<open>
  The same function on a heap of arrays, to tell the copy from the argument: the spread
  \<open>[...memoriesToSort]\<close> allocates a new array, \<open>sort\<close> works in place on that new array
  and returns it. A reference is an index into the heap.
\<close>

type_synonym ref = nat
type_synonym heap = "Memory list list"

definition array_spread :: "ref \<Rightarrow> heap \<Rightarrow> ref \<times> heap" where
  "array_spread a h = (length h, h @ [h ! a])"

definition array_sort_in_place :: "Memory comparefn \<Rightarrow> ref \<Rightarrow> heap \<Rightarrow> ref \<times> heap" where
  "array_sort_in_place comparefn a h = (a, h[a := array_sort comparefn (h ! a)])"

definition sortMemories_heap ::
  "(jsstring \<Rightarrow> real option) \<Rightarrow> ref \<Rightarrow> SortOption \<Rightarrow> heap \<Rightarrow> ref \<times> heap" where
  "sortMemories_heap getTime memoriesToSort sortOption h =
     (case array_spread memoriesToSort h of
        (copy, h') \<Rightarrow> array_sort_in_place (compareMemories getTime sortOption) copy h')"

subsection \<open>JavaScript values\<close>

text \<open>
  The body of a narrative response is parsed JSON and is read with dynamic checks, so it
  is modelled as a value: \<open>undefined\<close>, \<open>null\<close>, a boolean, a number, a string, an array
  or an object (the list of its properties, read with \<open>map_of\<close>).
\<close>

datatype jsval =
    JUndefined
  | JNull
  | JBool bool
  | JNum real
  | JStr jsstring
  | JArr "jsval list"
  | JObj "(jsstring \<times> jsval) list"

fun ToBoolean :: "jsval \<Rightarrow> bool" where
  "ToBoolean JUndefined = False"
| "ToBoolean JNull = False"
| "ToBoolean (JBool b) = b"
| "ToBoolean (JNum n) = (n \<noteq> 0)"
| "ToBoolean (JStr s) = (s \<noteq> [])"
| "ToBoolean (JArr vs) = True"
| "ToBoolean (JObj ps) = True"

fun typeof :: "jsval \<Rightarrow> jsstring" where
  "typeof JUndefined = lit ''undefined''"
| "typeof JNull = lit ''object''"
| "typeof (JBool b) = lit ''boolean''"
| "typeof (JNum n) = lit ''number''"
| "typeof (JStr s) = lit ''string''"
| "typeof (JArr vs) = lit ''object''"
| "typeof (JObj ps) = lit ''object''"

fun isArray :: "jsval \<Rightarrow> bool" where
  "isArray (JArr vs) = True"
| "isArray v = False"

text \<open>
  Reading a property, \<open>v.name\<close>: a TypeError (\<open>None\<close>) on \<open>undefined\<close> and \<open>null\<close>, the
  property's value or \<open>undefined\<close> on an object. The names this program reads
  (\<open>narrative_text\<close>, \<open>text\<close>, \<open>keywords\<close>, \<open>type\<close>) are no properties of booleans,
  numbers, strings or arrays, where the result is \<open>undefined\<close>.
\<close>

fun Get :: "jsval \<Rightarrow> jsstring \<Rightarrow> jsval option" where
  "Get JUndefined name = None"
| "Get JNull name = None"
| "Get (JObj ps) name = Some (case map_of ps name of None \<Rightarrow> JUndefined | Some v \<Rightarrow> v)"
| "Get v name = Some JUndefined"

text \<open>\<open>Array.prototype.filter\<close> and \<open>map\<close> with a callback that may throw.\<close>

fun filter_throwing :: "('a \<Rightarrow> bool option) \<Rightarrow> 'a list \<Rightarrow> 'a list option" where
  "filter_throwing p [] = Some []"
| "filter_throwing p (x # xs) =
     (case p x of
        None \<Rightarrow> None
      | Some keep \<Rightarrow>
          (case filter_throwing p xs of
             None \<Rightarrow> None
           | Some ys \<Rightarrow> Some (if keep then x # ys else ys)))"

fun map_throwing :: "('a \<Rightarrow> 'b option) \<Rightarrow> 'a list \<Rightarrow> 'b list option" where
  "map_throwing f [] = Some []"
| "map_throwing f (x # xs) =
     (case f x of
        None \<Rightarrow> None
      | Some y \<Rightarrow> (case map_throwing f xs of None \<Rightarrow> None | Some ys \<Rightarrow> Some (y # ys)))"

text \<open>
  The two callbacks of the keyword extraction in \<open>generateNarrative\<close>:
  \<open>kw => kw && (typeof kw === 'string' || (kw.type === 'primary'))\<close> and
  \<open>kw => typeof kw === 'string' ? kw : kw.text\<close>.
\<close>

definition keyword_filter :: "jsval \<Rightarrow> bool option" where
  "keyword_filter kw =
     (if \<not> ToBoolean kw then Some False
      else if typeof kw = lit ''string'' then Some True
      else (case Get kw (lit ''type'') of
              None \<Rightarrow> None
            | Some t \<Rightarrow> Some (t = JStr (lit ''primary''))))"

definition keyword_map :: "jsval \<Rightarrow> jsval option" where
  "keyword_map kw = (if typeof kw = lit ''string'' then Some kw else Get kw (lit ''text''))"

definition extract_keywords :: "jsval list \<Rightarrow> jsval list option" where
  "extract_keywords kws =
     (case filter_throwing keyword_filter kws of
        None \<Rightarrow> None
      | Some kept \<Rightarrow> map_throwing keyword_map kept)"

subsection \<open>Component state and its environment\<close>

record AppState =
  memories :: "Memory list"
  narrative :: jsval
  searchTerm :: jsstring
  error :: "jsstring option"
  loading :: bool
  memoryType :: MemoryType
  highlightedKeywords :: "jsval list"
  sortBy :: SortOption
  resetMessage :: "jsstring option"

text \<open>
  A request that reached the network, with its parameters: the session, the query, the
  memory type and the sort criterion of a search; the same without criterion for a
  narrative; the identifier, the session and the adjustment of a weight change.
\<close>

datatype request =
    SearchRequest jsstring jsstring MemoryType SortOption
  | NarrativeRequest jsstring jsstring MemoryType
  | AdjustWeightRequest int jsstring real

text \<open>
  What is caught by a \<open>catch\<close>: an instance of \<open>Error\<close> with its message (axios rejects
  with one), or any other value.
\<close>

datatype thrown = ErrorObject jsstring | OtherValue

datatype 'a outcome = Resolved 'a | Rejected thrown

text \<open>
  The environment of a handler: the \<open>session\<close> parameter of the page's query string
  (\<open>None\<close> for \<open>null\<close>), the date parser, the message the engine gives a TypeError, and
  the backend's answer to each request. The body of a search response is a list of
  memories, of a narrative response any value, of a weight response an object whose
  \<open>new_weight\<close> may be absent.
\<close>

record Env =
  session :: "jsstring option"
  getTime :: "jsstring \<Rightarrow> real option"
  type_error_message :: jsstring
  search_response :: "request \<Rightarrow> Memory list outcome"
  narrative_response :: "request \<Rightarrow> jsval outcome"
  adjust_response :: "request \<Rightarrow> real option outcome"

definition getSessionId :: "Env \<Rightarrow> jsstring option" where
  "getSessionId env = session env"

text \<open>\<open>err instanceof Error ? err.message : 'An unknown error occurred'\<close>\<close>

definition error_message :: "thrown \<Rightarrow> jsstring" where
  "error_message err =
     (case err of ErrorObject m \<Rightarrow> m | OtherValue \<Rightarrow> lit ''An unknown error occurred'')"

definition no_session_message :: jsstring where
  "no_session_message = lit ''No session ID found. Please start over from the upload page.''"

subsection \<open>Location update\<close>

text \<open>
  \<open>{...memory, ...updatedMemory, weight: updatedMemory.impact_weight || memory.weight,
  keywords: updatedMemory.openai_keywords || memory.keywords}\<close>: every property present
  in \<open>updatedMemory\<close> replaces the one of \<open>memory\<close>, then the two compatibility
  properties are set. An array is truthy, also when empty; a weight of 0 is falsy.
\<close>

definition spread :: "'a \<Rightarrow> 'a option \<Rightarrow> 'a" where
  "spread old new = (case new of None \<Rightarrow> old | Some v \<Rightarrow> v)"

definition spread_optional :: "'a option \<Rightarrow> 'a option \<Rightarrow> 'a option" where
  "spread_optional old new = (case new of None \<Rightarrow> old | Some v \<Rightarrow> Some v)"

definition merge_updated :: "Memory \<Rightarrow> MemoryUpdate \<Rightarrow> Memory" where
  "merge_updated memory updatedMemory =
     \<lparr> id_m = spread (id_m memory) (u_id updatedMemory),
       title = spread (title memory) (u_title updatedMemory),
       location = spread (location memory) (u_location updatedMemory),
       date = spread (date memory) (u_date updatedMemory),
       keywords_m =
         (case u_openai_keywords updatedMemory of
            Some ks \<Rightarrow> Some ks
          | None \<Rightarrow> keywords_m memory),
       type_m = spread (type_m memory) (u_type updatedMemory),
       description = spread_optional (description memory) (u_description updatedMemory),
       weight =
         (case u_impact_weight updatedMemory of
            Some w \<Rightarrow> if w \<noteq> 0 then Some w else weight memory
          | None \<Rightarrow> weight memory),
       filename = spread_optional (filename memory) (u_filename updatedMemory),
       image_url = spread_optional (image_url memory) (u_image_url updatedMemory),
       original_path = spread_optional (original_path memory) (u_original_path updatedMemory),
       processed_path =
         spread_optional (processed_path memory) (u_processed_path updatedMemory),
       openai_keywords =
         spread_optional (openai_keywords memory) (u_openai_keywords updatedMemory),
       openai_description =
         spread_optional (openai_description memory) (u_openai_description updatedMemory),
       impact_weight = spread_optional (impact_weight memory) (u_impact_weight updatedMemory),
       detected_objects =
         spread_optional (detected_objects memory) (u_detected_objects updatedMemory),
       relevance_score =
         spread_optional (relevance_score memory) (u_relevance_score updatedMemory) \<rparr>"

text \<open>
  The partial form: \<open>{...memory, location: newLocation, title: ...}\<close>, the title
  computed from the location the record had before.
\<close>

definition update_location_only :: "Memory \<Rightarrow> jsstring \<Rightarrow> Memory" where
  "update_location_only memory newLocation =
     memory\<lparr> location := newLocation,
             title :=
               (if location memory = lit ''Unknown Location''
                then newLocation @ lit '' - '' @ date memory
                else replace (title memory) (location memory) newLocation) \<rparr>"

definition handleLocationUpdate ::
  "int \<Rightarrow> jsstring \<Rightarrow> MemoryUpdate option \<Rightarrow> AppState \<Rightarrow> AppState" where
  "handleLocationUpdate memoryId newLocation updatedMemory s =
     s\<lparr> memories :=
          map (\<lambda>memory.
                 if id_m memory = memoryId then
                   (case updatedMemory of
                      Some u \<Rightarrow> merge_updated memory u
                    | None \<Rightarrow> update_location_only memory newLocation)
                 else memory)
              (memories s) \<rparr>"

subsection \<open>Search\<close>

definition empty_term_message :: jsstring where
  "empty_term_message = lit ''Please enter a search term''"

text \<open>
  The \<open>try\<close> block of \<open>searchMemories\<close>: the requests sent, and either what was thrown
  or the body of the response. A session that is \<open>null\<close> or empty is falsy.
\<close>

definition search_try :: "Env \<Rightarrow> AppState \<Rightarrow> request list \<times> (thrown + Memory list)" where
  "search_try env s =
     (case getSessionId env of
        None \<Rightarrow> ([], Inl (ErrorObject no_session_message))
      | Some sessionId \<Rightarrow>
          if sessionId = [] then ([], Inl (ErrorObject no_session_message))
          else
            (let req = SearchRequest sessionId (searchTerm s) (memoryType s) (sortBy s)
             in case search_response env req of
                  Rejected err \<Rightarrow> ([req], Inl err)
                | Resolved data \<Rightarrow> ([req], Inr data)))"

definition searchMemories :: "Env \<Rightarrow> AppState \<Rightarrow> request list \<times> AppState" where
  "searchMemories env s =
     (if trim (searchTerm s) = [] then ([], s\<lparr>error := Some empty_term_message\<rparr>)
      else
        (let s1 = s\<lparr>loading := True, error := None\<rparr>
         in case search_try env s of
              (reqs, Inr data) \<Rightarrow> (reqs, s1\<lparr>memories := data, loading := False\<rparr>)
            | (reqs, Inl err) \<Rightarrow>
                (reqs, s1\<lparr>error := Some (error_message err), loading := False\<rparr>)))"

subsection \<open>Narrative generation\<close>

text \<open>
  The text shown: \<open>narrative_text\<close> when truthy, else \<open>text\<close> when truthy, else the
  empty string. \<open>None\<close> is the TypeError of reading a property of \<open>null\<close> or
  \<open>undefined\<close>.
\<close>

definition narrative_text_of :: "jsval \<Rightarrow> jsval option" where
  "narrative_text_of narrativeData =
     (case Get narrativeData (lit ''narrative_text'') of
        None \<Rightarrow> None
      | Some nt \<Rightarrow>
          if ToBoolean nt then Some nt
          else (case Get narrativeData (lit ''text'') of
                  None \<Rightarrow> None
                | Some t \<Rightarrow> if ToBoolean t then Some t else Some (JStr [])))"

fun elements :: "jsval \<Rightarrow> jsval list" where
  "elements (JArr vs) = vs"
| "elements v = []"

definition keywords_of :: "jsval \<Rightarrow> jsval list option" where
  "keywords_of narrativeData =
     (case Get narrativeData (lit ''keywords'') of
        None \<Rightarrow> None
      | Some ks \<Rightarrow>
          if ToBoolean ks \<and> isArray ks then extract_keywords (elements ks) else Some [])"

text \<open>
  The \<open>try\<close> block of \<open>generateNarrative\<close>, run in the state that has \<open>loading\<close> set and
  \<open>error\<close> cleared: the requests sent, the state reached and what was thrown, if
  anything. A state change made before a throw stays.
\<close>

definition narrative_try :: "Env \<Rightarrow> AppState \<Rightarrow> request list \<times> AppState \<times> thrown option" where
  "narrative_try env s =
     (case getSessionId env of
        None \<Rightarrow> ([], s, Some (ErrorObject no_session_message))
      | Some sessionId \<Rightarrow>
          if sessionId = [] then ([], s, Some (ErrorObject no_session_message))
          else
            (let req = NarrativeRequest sessionId (searchTerm s) (memoryType s)
             in case narrative_response env req of
                  Rejected err \<Rightarrow> ([req], s, Some err)
                | Resolved narrativeData \<Rightarrow>
                    (case narrative_text_of narrativeData of
                       None \<Rightarrow> ([req], s, Some (ErrorObject (type_error_message env)))
                     | Some text \<Rightarrow>
                         (case keywords_of narrativeData of
                            None \<Rightarrow>
                              ([req], s\<lparr>narrative := text\<rparr>,
                               Some (ErrorObject (type_error_message env)))
                          | Some kws \<Rightarrow>
                              ([req], s\<lparr>narrative := text, highlightedKeywords := kws\<rparr>,
                               None)))))"

definition generateNarrative :: "Env \<Rightarrow> AppState \<Rightarrow> request list \<times> AppState" where
  "generateNarrative env s =
     (if trim (searchTerm s) = [] then ([], s\<lparr>error := Some empty_term_message\<rparr>)
      else
        (case narrative_try env (s\<lparr>loading := True, error := None\<rparr>) of
           (reqs, s', None) \<Rightarrow> (reqs, s'\<lparr>loading := False\<rparr>)
         | (reqs, s', Some err) \<Rightarrow>
             (reqs, s'\<lparr>error := Some (error_message err), loading := False\<rparr>)))"

subsection \<open>Weight adjustment and sort criterion\<close>

text \<open>
  Left click and right click. Both handlers stop with an error when there is no session,
  post the adjustment, and on an answer map over the store and sort it again; a rejected
  request only sets the error.
\<close>

definition handleIncreaseWeight :: "Env \<Rightarrow> int \<Rightarrow> AppState \<Rightarrow> request list \<times> AppState" where
  "handleIncreaseWeight env memory_id s =
     (case getSessionId env of
        None \<Rightarrow> ([], s\<lparr>error := Some no_session_message\<rparr>)
      | Some sessionId \<Rightarrow>
          if sessionId = [] then ([], s\<lparr>error := Some no_session_message\<rparr>)
          else
            (let req = AdjustWeightRequest memory_id sessionId (1 / 10)
             in case adjust_response env req of
                  Rejected err \<Rightarrow>
                    ([req], s\<lparr>error := Some (lit ''Failed to increase memory weight'')\<rparr>)
                | Resolved new_weight \<Rightarrow>
                    ([req],
                     s\<lparr>memories :=
                         sortMemories (getTime env)
                           (map (\<lambda>memory.
                                   if id_m memory = memory_id
                                   then memory\<lparr>weight := new_weight,
                                               impact_weight := new_weight\<rparr>
                                   else memory)
                                (memories s))
                           (sortBy s)\<rparr>)))"

definition handleDecreaseWeight :: "Env \<Rightarrow> int \<Rightarrow> AppState \<Rightarrow> request list \<times> AppState" where
  "handleDecreaseWeight env memory_id s =
     (case getSessionId env of
        None \<Rightarrow> ([], s\<lparr>error := Some no_session_message\<rparr>)
      | Some sessionId \<Rightarrow>
          if sessionId = [] then ([], s\<lparr>error := Some no_session_message\<rparr>)
          else
            (let req = AdjustWeightRequest memory_id sessionId (- (1 / 10))
             in case adjust_response env req of
                  Rejected err \<Rightarrow>
                    ([req], s\<lparr>error := Some (lit ''Failed to decrease memory weight'')\<rparr>)
                | Resolved new_weight \<Rightarrow>
                    ([req],
                     s\<lparr>memories :=
                         sortMemories (getTime env)
                           (map (\<lambda>memory.
                                   if id_m memory = memory_id
                                   then memory\<lparr>weight := new_weight\<rparr>
                                   else memory)
                                (memories s))
                           (sortBy s)\<rparr>)))"

definition handleSortChange :: "Env \<Rightarrow> SortOption \<Rightarrow> AppState \<Rightarrow> AppState" where
  "handleSortChange env newSortOption s =
     (let s1 = s\<lparr>sortBy := newSortOption\<rparr>
      in if length (memories s) > 0
         then s1\<lparr>memories := sortMemories (getTime env) (memories s) newSortOption\<rparr>
         else s1)"

subsection \<open>Notions of the specification\<close>

text \<open>
  The weight a record sorts by. The specification reads \<open>weight ?? 1.0\<close>: a record
  without weight counts as 1.0 (\<open>stated_weight\<close>). The program writes
  \<open>weight || 1.0\<close>, where a weight of 0 counts as 1.0 as well (\<open>effective_weight\<close>).
\<close>

definition stated_weight :: "Memory \<Rightarrow> real" where
  "stated_weight m = (case weight m of None \<Rightarrow> 1 | Some w \<Rightarrow> w)"

definition effective_weight :: "Memory \<Rightarrow> real" where
  "effective_weight m = (case weight m of None \<Rightarrow> 1 | Some w \<Rightarrow> if w = 0 then 1 else w)"

definition descending_by :: "(Memory \<Rightarrow> real) \<Rightarrow> Memory list \<Rightarrow> bool" where
  "descending_by key ms = sorted_wrt (\<lambda>a b. key a \<ge> key b) ms"

text \<open>The records of a given weight, in the order of the list.\<close>

definition of_weight :: "(Memory \<Rightarrow> real) \<Rightarrow> real \<Rightarrow> Memory list \<Rightarrow> Memory list" where
  "of_weight key w ms = filter (\<lambda>m. key m = w) ms"

text \<open>
  What one entry of the keyword list of a narrative response contributes to the
  highlight keywords: a non-empty string itself, an object whose \<open>type\<close> is the string
  \<open>primary\<close> the value of its \<open>text\<close> property (\<open>undefined\<close> when it has none), and
  anything else nothing.
\<close>

fun contribution :: "jsval \<Rightarrow> jsval option" where
  "contribution (JStr s) = (if s = [] then None else Some (JStr s))"
| "contribution (JObj ps) =
     (if map_of ps (lit ''type'') = Some (JStr (lit ''primary''))
      then Some (case map_of ps (lit ''text'') of None \<Rightarrow> JUndefined | Some v \<Rightarrow> v)
      else None)"
| "contribution v = None"

text \<open>
  The title rewrite as the specification words it: the first occurrence of the old
  location in the title is replaced by the new location, taken as it is.
\<close>

fun replace_first :: "jsstring \<Rightarrow> jsstring \<Rightarrow> jsstring \<Rightarrow> jsstring" where
  "replace_first [] old new = (if old = [] then new else [])"
| "replace_first (c # cs) old new =
     (if take (length old) (c # cs) = old then new @ drop (length old) (c # cs)
      else c # replace_first cs old new)"

text \<open>
  The key a criterion sorts by, greatest first: the effective weight, the time of the
  date, or nothing (all records rank alike, the order is the server's). The date
  comparison orders by this key when the dates of the list all parse or all fail to
  parse; a list that mixes the two makes it inconsistent.
\<close>

definition sort_key :: "(jsstring \<Rightarrow> real option) \<Rightarrow> SortOption \<Rightarrow> Memory \<Rightarrow> real" where
  "sort_key gt sortOption m =
     (case sortOption of
        Weight \<Rightarrow> effective_weight m
      | Date \<Rightarrow> (case gt (date m) of None \<Rightarrow> 0 | Some t \<Rightarrow> t)
      | Relevance \<Rightarrow> 0)"

definition dates_uniform :: "(jsstring \<Rightarrow> real option) \<Rightarrow> SortOption \<Rightarrow> Memory list \<Rightarrow> bool" where
  "dates_uniform gt sortOption ms =
     (sortOption = Date \<longrightarrow>
        (\<forall>m \<in> set ms. gt (date m) \<noteq> None) \<or> (\<forall>m \<in> set ms. gt (date m) = None))"

text \<open>The records of a given key, in the order of the list.\<close>

definition of_key :: "(Memory \<Rightarrow> real) \<Rightarrow> real \<Rightarrow> Memory list \<Rightarrow> Memory list" where
  "of_key key k ms = filter (\<lambda>m. key m = k) ms"

subsection \<open>Example data\<close>

definition memory0 :: Memory where
  "memory0 =
     \<lparr> id_m = 0, title = [], location = [], date = [], keywords_m = None,
       type_m = lit ''user'', description = None, weight = None, filename = None,
       image_url = None, original_path = None, processed_path = None,
       openai_keywords = None, openai_description = None, impact_weight = None,
       detected_objects = None, relevance_score = None \<rparr>"

definition no_dates :: "jsstring \<Rightarrow> real option" where
  "no_dates s = None"

definition half_and_zero :: "Memory list" where
  "half_and_zero =
     [memory0\<lparr>id_m := 1, weight := Some (1 / 2)\<rparr>, memory0\<lparr>id_m := 2, weight := Some 0\<rparr>]"

definition four_memories :: "Memory list" where
  "four_memories =
     [memory0\<lparr>id_m := 1, weight := Some (1 / 2)\<rparr>,
      memory0\<lparr>id_m := 2\<rparr>,
      memory0\<lparr>id_m := 3, weight := Some 0\<rparr>,
      memory0\<lparr>id_m := 4, weight := Some (3 / 2)\<rparr>]"

text \<open>The state of the component when it is mounted.\<close>

definition initial_state :: AppState where
  "initial_state =
     \<lparr> memories = [], narrative = JStr [], searchTerm = [], error = None, loading = False,
       memoryType = User, highlightedKeywords = [], sortBy = Weight, resetMessage = None \<rparr>"

definition kyoto_memory :: Memory where
  "kyoto_memory =
     memory0\<lparr> id_m := 5, title := lit ''Unknown Location - 2024-05-01'',
              location := lit ''Unknown Location'', date := lit ''2024-05-01'' \<rparr>"

text \<open>A space, an ideographic space and a tab.\<close>

definition blank_term :: jsstring where
  "blank_term = [0x0020, 0x3000, 0x0009]"

text \<open>A backend that cannot be reached.\<close>

definition offline_env :: Env where
  "offline_env =
     \<lparr> session = Some (lit ''s1''), getTime = no_dates,
       type_error_message = lit ''TypeError'',
       search_response = (\<lambda>r. Rejected (ErrorObject (lit ''Network Error''))),
       narrative_response = (\<lambda>r. Rejected OtherValue),
       adjust_response = (\<lambda>r. Rejected (ErrorObject (lit ''Network Error''))) \<rparr>"

text \<open>
  A backend that answers every search with two records, the lighter one last, and every
  weight adjustment with the new weight 2.
\<close>

definition serving_env :: Env where
  "serving_env =
     \<lparr> session = Some (lit ''s1''), getTime = no_dates,
       type_error_message = lit ''TypeError'',
       search_response = (\<lambda>r. Resolved half_and_zero),
       narrative_response = (\<lambda>r. Resolved (JObj [])),
       adjust_response = (\<lambda>r. Resolved (Some 2)) \<rparr>"

definition paris_memory :: Memory where
  "paris_memory =
     memory0\<lparr> id_m := 6, title := lit ''Paris - 2024-05-01'',
              location := lit ''Paris'', date := lit ''2024-05-01'' \<rparr>"

definition cat_state :: AppState where
  "cat_state = initial_state\<lparr>searchTerm := lit ''cat'', memories := four_memories\<rparr>"

definition mixed_keywords :: "jsval list" where
  "mixed_keywords =
     [JStr (lit ''cat''), JNull,
      JObj [(lit ''type'', JStr (lit ''primary'')), (lit ''text'', JStr (lit ''mat''))],
      JObj [(lit ''type'', JStr (lit ''secondary'')), (lit ''text'', JStr (lit ''hat''))],
      JNum 7, JStr [], JObj [(lit ''type'', JStr (lit ''primary''))]]"

text \<open>
  A date parser that knows three days (their times in milliseconds), three records
  dated with them, and the serving backend with that parser.
\<close>

definition calendar :: "jsstring \<Rightarrow> real option" where
  "calendar s =
     (if s = lit ''2020-01-01'' then Some 1577836800000
      else if s = lit ''2021-01-01'' then Some 1609459200000
      else if s = lit ''2022-01-01'' then Some 1640995200000
      else None)"

definition dated_memories :: "Memory list" where
  "dated_memories =
     [memory0\<lparr>id_m := 1, date := lit ''2020-01-01'', weight := Some (1 / 2)\<rparr>,
      memory0\<lparr>id_m := 2, date := lit ''2022-01-01''\<rparr>,
      memory0\<lparr>id_m := 3, date := lit ''2021-01-01''\<rparr>]"

definition dated_env :: Env where
  "dated_env = serving_env\<lparr>getTime := calendar\<rparr>"

definition dated_state :: AppState where
  "dated_state = initial_state\<lparr>memories := dated_memories, sortBy := Date\<rparr>"

section \<open>Properties\<close>

subsection \<open>Sorting\<close>

lemma mset_sort_insert: "mset (sort_insert f x ys) = add_mset x (mset ys)"
  by (induction ys) auto

lemma mset_array_sort: "mset (array_sort f xs) = mset xs"
  unfolding array_sort_def by (induction xs) (auto simp: mset_sort_insert)

lemma length_array_sort: "length (array_sort f xs) = length xs"
  using mset_array_sort [of f xs] by (metis size_mset)

lemma set_sort_insert: "set (sort_insert f x ys) = insert x (set ys)"
  by (induction ys) auto

text \<open>
  A comparison function that orders by a key, greatest first: the result is in
  descending order of the key, and the records of one key keep their order.
\<close>

lemma sorted_sort_insert:
  assumes "\<And>a b. (SortCompare f a b > 0) = (key a < key b)"
    and "sorted_wrt (\<lambda>a b. key a \<ge> key b) ys"
  shows "sorted_wrt (\<lambda>a b. key a \<ge> (key b :: real)) (sort_insert f x ys)"
  using assms(2)
proof (induction ys)
  case Nil
  then show ?case by simp
next
  case (Cons y ys)
  then show ?case
    by (auto simp: assms(1) set_sort_insert)
qed

lemma sorted_array_sort:
  assumes "\<And>a b. (SortCompare f a b > 0) = (key a < key b)"
  shows "sorted_wrt (\<lambda>a b. key a \<ge> (key b :: real)) (array_sort f xs)"
  unfolding array_sort_def
  by (induction xs) (auto intro: sorted_sort_insert [OF assms])

lemma filter_sort_insert:
  assumes "\<And>a b. (SortCompare f a b > 0) = (key a < key b)"
  shows "filter (\<lambda>m. key m = (k::real)) (sort_insert f x ys)
       = filter (\<lambda>m. key m = k) (x # ys)"
  by (induction ys) (auto simp: assms)

lemma filter_array_sort:
  assumes "\<And>a b. (SortCompare f a b > 0) = (key a < key b)"
  shows "filter (\<lambda>m. key m = (k::real)) (array_sort f xs) = filter (\<lambda>m. key m = k) xs"
  unfolding array_sort_def
  by (induction xs) (auto simp: filter_sort_insert [OF assms])

lemma effective_weight_compare:
  "(SortCompare (compareMemories gt Weight) a b > 0)
     = (effective_weight a < effective_weight b)"
  by (simp add: SortCompare_def compareMemories_def number_or_def effective_weight_def)

text \<open>
  C1, as stated: sorting by weight gives descending order of weight, a missing weight
  counting as 1.0. This fails for a record of weight 0, which the comparison function
  ranks as 1.0: the record of weight 0 is put before the record of weight 0.5.
\<close>

theorem sort_by_weight_zero_counterexample:
  "\<not> descending_by stated_weight (sortMemories no_dates half_and_zero Weight)"
  by (simp add: descending_by_def stated_weight_def sortMemories_def array_sort_def
      SortCompare_def compareMemories_def number_or_def half_and_zero_def memory0_def)

text \<open>
  C1, amended: sorting with the criterion \<open>weight\<close> returns the records in descending
  order of effective weight, where a missing weight and a weight of 0 both count as 1.0,
  and the records of equal effective weight keep their order from the input list.
\<close>

theorem sort_by_weight_descending_stable:
  "descending_by effective_weight (sortMemories gt ms Weight)
   \<and> of_weight effective_weight w (sortMemories gt ms Weight)
       = of_weight effective_weight w ms"
  unfolding descending_by_def of_weight_def sortMemories_def
  using sorted_array_sort [of "compareMemories gt Weight" effective_weight ms]
        filter_array_sort [of "compareMemories gt Weight" effective_weight w ms]
  by (simp add: effective_weight_compare)

theorem sort_by_weight_descending_stable_witness:
  "sortMemories no_dates four_memories Weight =
     [memory0\<lparr>id_m := 4, weight := Some (3 / 2)\<rparr>,
      memory0\<lparr>id_m := 2\<rparr>,
      memory0\<lparr>id_m := 3, weight := Some 0\<rparr>,
      memory0\<lparr>id_m := 1, weight := Some (1 / 2)\<rparr>]
   \<and> descending_by effective_weight (sortMemories no_dates four_memories Weight)
   \<and> of_weight effective_weight 1 (sortMemories no_dates four_memories Weight)
       = [memory0\<lparr>id_m := 2\<rparr>, memory0\<lparr>id_m := 3, weight := Some 0\<rparr>]"
  using sort_by_weight_descending_stable [of no_dates four_memories 1]
  by (simp add: of_weight_def effective_weight_def sortMemories_def array_sort_def
      SortCompare_def compareMemories_def number_or_def four_memories_def memory0_def)

text \<open>
  C8: for every list of records and every criterion the sorted list is a permutation of
  the input, with the same length and the same records as a multiset. On the heap the
  result is a new array: its reference differs from the argument's, and every array that
  existed before the call, the argument among them, holds what it held.
\<close>

theorem sort_is_permutation_of_copy:
  "mset (sortMemories gt ms opt) = mset ms
   \<and> length (sortMemories gt ms opt) = length ms
   \<and> (a < length h \<longrightarrow>
        (case sortMemories_heap gt a opt h of
           (r, h') \<Rightarrow>
             r \<noteq> a \<and> h' ! r = sortMemories gt (h ! a) opt \<and> take (length h) h' = h))"
  by (simp add: sortMemories_def mset_array_sort length_array_sort sortMemories_heap_def
      array_spread_def array_sort_in_place_def nth_append)

theorem sort_is_permutation_of_copy_witness:
  "sortMemories_heap no_dates 0 Weight [four_memories]
       = (1, [four_memories, sortMemories no_dates four_memories Weight])
   \<and> mset (sortMemories no_dates four_memories Weight) = mset four_memories
   \<and> length (sortMemories no_dates four_memories Weight) = 4"
  using sort_is_permutation_of_copy [of no_dates four_memories Weight 0 "[four_memories]"]
  by (simp add: sortMemories_heap_def array_spread_def array_sort_in_place_def
      sortMemories_def four_memories_def)

text \<open>With the criterion \<open>relevance\<close> the comparison is always 0 and the order stays.\<close>

lemma sort_by_relevance_identity: "sortMemories gt ms Relevance = ms"
proof -
  have "sort_insert (compareMemories gt Relevance) x ys = x # ys" for x ys
    by (cases ys) (simp_all add: SortCompare_def compareMemories_def)
  then show ?thesis
    unfolding sortMemories_def array_sort_def by (induction ms) simp_all
qed

lemma set_array_sort: "set (array_sort f xs) = set xs"
  using mset_array_sort [of f xs] by (metis set_mset_mset)

lemma mset_sortMemories: "mset (sortMemories gt ms opt) = mset ms"
  by (simp add: sortMemories_def mset_array_sort)

lemma set_sortMemories: "set (sortMemories gt ms opt) = set ms"
  by (simp add: sortMemories_def set_array_sort)

text \<open>
  The same two properties for a comparison function that orders by a key on the
  elements of the list at hand, and with them the three criteria of \<open>sortMemories\<close>.
\<close>

lemma array_sort_Cons: "array_sort f (x # xs) = sort_insert f x (array_sort f xs)"
  by (simp add: array_sort_def)

lemma sorted_sort_insert_on:
  assumes "\<forall>b \<in> set ys. (SortCompare f x b > 0) = (key x < key b)"
    and "sorted_wrt (\<lambda>a b. key a \<ge> key b) ys"
  shows "sorted_wrt (\<lambda>a b. key a \<ge> (key b :: real)) (sort_insert f x ys)"
  using assms
proof (induction ys)
  case Nil
  then show ?case by simp
next
  case (Cons y ys)
  then show ?case
    by (auto simp: set_sort_insert)
qed

lemma sorted_array_sort_on:
  assumes "\<forall>a \<in> set xs. \<forall>b \<in> set xs. (SortCompare f a b > 0) = (key a < key b)"
  shows "sorted_wrt (\<lambda>a b. key a \<ge> (key b :: real)) (array_sort f xs)"
  using assms
proof (induction xs)
  case Nil
  then show ?case by (simp add: array_sort_def)
next
  case (Cons x xs)
  have "sorted_wrt (\<lambda>a b. key a \<ge> key b) (array_sort f xs)"
    using Cons by simp
  moreover have "\<forall>b \<in> set (array_sort f xs). (SortCompare f x b > 0) = (key x < key b)"
    using Cons.prems by (simp add: set_array_sort)
  ultimately show ?case
    unfolding array_sort_Cons by (rule sorted_sort_insert_on [rotated])
qed

lemma filter_sort_insert_on:
  assumes "\<forall>b \<in> set ys. (SortCompare f x b > 0) = (key x < key b)"
  shows "filter (\<lambda>m. key m = (k::real)) (sort_insert f x ys)
       = filter (\<lambda>m. key m = k) (x # ys)"
  using assms by (induction ys) auto

lemma filter_array_sort_on:
  assumes "\<forall>a \<in> set xs. \<forall>b \<in> set xs. (SortCompare f a b > 0) = (key a < key b)"
  shows "filter (\<lambda>m. key m = (k::real)) (array_sort f xs) = filter (\<lambda>m. key m = k) xs"
  using assms
proof (induction xs)
  case Nil
  then show ?case by (simp add: array_sort_def)
next
  case (Cons x xs)
  have ih: "filter (\<lambda>m. key m = k) (array_sort f xs) = filter (\<lambda>m. key m = k) xs"
    using Cons by simp
  have "\<forall>b \<in> set (array_sort f xs). (SortCompare f x b > 0) = (key x < key b)"
    using Cons.prems by (simp add: set_array_sort)
  then have "filter (\<lambda>m. key m = k) (sort_insert f x (array_sort f xs))
               = filter (\<lambda>m. key m = k) (x # array_sort f xs)"
    by (rule filter_sort_insert_on)
  then show ?case
    unfolding array_sort_Cons using ih by simp
qed

lemma sort_key_compare:
  assumes "dates_uniform gt opt ms" and "a \<in> set ms" and "b \<in> set ms"
  shows "(SortCompare (compareMemories gt opt) a b > 0) = (sort_key gt opt a < sort_key gt opt b)"
proof (cases opt)
  case Weight
  then show ?thesis by (simp add: sort_key_def effective_weight_compare)
next
  case Date
  then consider "\<forall>m \<in> set ms. gt (date m) \<noteq> None" | "\<forall>m \<in> set ms. gt (date m) = None"
    using assms(1) by (auto simp: dates_uniform_def)
  then show ?thesis
  proof cases
    case 1
    then obtain ta tb where "gt (date a) = Some ta" "gt (date b) = Some tb"
      using assms(2,3) by blast
    then show ?thesis using Date
      by (simp add: sort_key_def SortCompare_def compareMemories_def)
  next
    case 2
    then have "gt (date a) = None" "gt (date b) = None"
      using assms(2,3) by blast+
    then show ?thesis using Date
      by (simp add: sort_key_def SortCompare_def compareMemories_def)
  qed
next
  case Relevance
  then show ?thesis by (simp add: sort_key_def SortCompare_def compareMemories_def)
qed

lemma sortMemories_sorted_stable:
  assumes "dates_uniform gt opt ms"
  shows "descending_by (sort_key gt opt) (sortMemories gt ms opt)
       \<and> of_key (sort_key gt opt) k (sortMemories gt ms opt) = of_key (sort_key gt opt) k ms"
proof -
  have c: "\<forall>a \<in> set ms. \<forall>b \<in> set ms.
             (SortCompare (compareMemories gt opt) a b > 0)
               = (sort_key gt opt a < sort_key gt opt b)"
    using sort_key_compare [OF assms] by blast
  show ?thesis
    unfolding descending_by_def of_key_def sortMemories_def
    using sorted_array_sort_on [OF c] filter_array_sort_on [OF c] by simp
qed

lemma dates_uniform_map:
  assumes "dates_uniform gt opt ms" and "\<And>m. date (f m) = date m"
  shows "dates_uniform gt opt (map f ms)"
  using assms by (auto simp: dates_uniform_def)

subsection \<open>Empty search terms\<close>

lemma all_white_trim:
  assumes "\<forall>c \<in> set t. is_white_space c"
  shows "trim t = []"
proof -
  have "dropWhile is_white_space t = []"
    using assms by simp
  then show ?thesis unfolding trim_def by (simp del: dropWhile_eq_Nil_conv)
qed

text \<open>The guard \<open>!searchTerm.trim()\<close> holds for the terms made of white space only.\<close>

lemma trim_empty_iff: "(trim t = []) = (\<forall>c \<in> set t. is_white_space c)"
proof
  assume "trim t = []"
  then have "dropWhile is_white_space (rev (dropWhile is_white_space t)) = []"
    by (simp add: trim_def)
  then have a: "\<forall>c \<in> set (dropWhile is_white_space t). is_white_space c"
    by simp
  show "\<forall>c \<in> set t. is_white_space c"
  proof (cases "dropWhile is_white_space t")
    case Nil
    then show ?thesis by simp
  next
    case (Cons c cs)
    then have "\<not> is_white_space c" by (metis hd_dropWhile list.sel(1) list.distinct(1))
    moreover have "c \<in> set (dropWhile is_white_space t)" using Cons by simp
    ultimately show ?thesis using a by blast
  qed
next
  assume "\<forall>c \<in> set t. is_white_space c"
  then show "trim t = []" by (rule all_white_trim)
qed

text \<open>
  C6: when the search term is empty or consists of white space only, search and
  narrative generation send no request and change nothing in the state but the error
  slot, which receives the message \<open>Please enter a search term\<close>; the memory store and
  the narrative state are as before.
\<close>

theorem blank_term_is_rejected:
  assumes "\<forall>c \<in> set (searchTerm s). is_white_space c"
  shows "searchMemories env s = ([], s\<lparr>error := Some empty_term_message\<rparr>)
       \<and> generateNarrative env s = ([], s\<lparr>error := Some empty_term_message\<rparr>)"
  using all_white_trim [OF assms]
  by (simp add: searchMemories_def generateNarrative_def)

theorem blank_term_is_rejected_witness:
  "searchMemories offline_env (initial_state\<lparr>searchTerm := blank_term\<rparr>)
       = ([], initial_state\<lparr>searchTerm := blank_term, error := Some empty_term_message\<rparr>)
   \<and> generateNarrative offline_env (initial_state\<lparr>searchTerm := blank_term\<rparr>)
       = ([], initial_state\<lparr>searchTerm := blank_term, error := Some empty_term_message\<rparr>)"
proof -
  have h: "\<forall>c \<in> set (searchTerm (initial_state\<lparr>searchTerm := blank_term\<rparr>)). is_white_space c"
    by (simp add: blank_term_def is_white_space_def white_space_units_def)
  show ?thesis
    using blank_term_is_rejected [OF h, of offline_env] by simp
qed

subsection \<open>Location update\<close>

text \<open>
  C9: when no record of the store has the given identifier, a location update, with or
  without the full record, leaves the store as it is, every record and their order (and
  the rest of the state with it).
\<close>

theorem location_update_unknown_id:
  assumes "\<forall>m \<in> set (memories s). id_m m \<noteq> memoryId"
  shows "handleLocationUpdate memoryId newLocation updatedMemory s = s"
proof -
  have "map (\<lambda>memory.
               if id_m memory = memoryId then
                 (case updatedMemory of
                    Some u \<Rightarrow> merge_updated memory u
                  | None \<Rightarrow> update_location_only memory newLocation)
               else memory) (memories s) = memories s"
    using assms by (induction "memories s") (auto intro: map_idI)
  then show ?thesis by (simp add: handleLocationUpdate_def)
qed

theorem location_update_unknown_id_witness:
  "handleLocationUpdate 7 (lit ''Kyoto'') None (initial_state\<lparr>memories := four_memories\<rparr>)
       = initial_state\<lparr>memories := four_memories\<rparr>"
proof -
  have h: "\<forall>m \<in> set (memories (initial_state\<lparr>memories := four_memories\<rparr>)). id_m m \<noteq> 7"
    by (simp add: four_memories_def)
  show ?thesis
    using location_update_unknown_id [OF h, of "lit ''Kyoto''" None] by simp
qed

text \<open>
  C4: a record of the store that has the given identifier and the location
  \<open>Unknown Location\<close> gets, by the partial location update, the title made of the new
  location, the three code units \<open> - \<close> and the record's date.
\<close>

theorem unknown_location_title:
  assumes "i < length (memories s)"
    and "id_m (memories s ! i) = memoryId"
    and "location (memories s ! i) = lit ''Unknown Location''"
  shows "title (memories (handleLocationUpdate memoryId newLocation None s) ! i)
           = newLocation @ lit '' - '' @ date (memories s ! i)"
  using assms by (simp add: handleLocationUpdate_def update_location_only_def)

theorem unknown_location_title_witness:
  "title (memories (handleLocationUpdate 5 (lit ''Kyoto'') None
            (initial_state\<lparr>memories := [kyoto_memory]\<rparr>)) ! 0)
     = lit ''Kyoto - 2024-05-01''"
  using unknown_location_title
          [of 0 "initial_state\<lparr>memories := [kyoto_memory]\<rparr>" 5 "lit ''Kyoto''"]
  by (simp add: kyoto_memory_def lit_def)

text \<open>
  Without the replacement patterns the title rewrite is the textual replacement of the
  first occurrence: a new location that has no dollar sign is inserted as it is.
\<close>

lemma GetSubstitution_plain:
  "0x24 \<notin> set template \<Longrightarrow> GetSubstitution matched str position template = template"
  by (induction matched str position template rule: GetSubstitution.induct) auto

lemma replace_plain:
  assumes "0x24 \<notin> set new"
  shows "replace s old new = replace_first s old new"
proof -
  have "(case StringIndexOf s old of
           None \<Rightarrow> s
         | Some pos \<Rightarrow> take pos s @ new @ drop (pos + length old) s) = replace_first s old new"
    by (induction s) (auto split: option.splits)
  then show ?thesis
    by (auto simp: replace_def GetSubstitution_plain [OF assms] split: option.splits)
qed

lemma plain_location_title:
  assumes "i < length (memories s)"
    and "id_m (memories s ! i) = memoryId"
    and "location (memories s ! i) \<noteq> lit ''Unknown Location''"
    and "0x24 \<notin> set newLocation"
  shows "title (memories (handleLocationUpdate memoryId newLocation None s) ! i)
           = replace_first (title (memories s ! i)) (location (memories s ! i)) newLocation"
  using assms
  by (simp add: handleLocationUpdate_def update_location_only_def replace_plain)

text \<open>
  C5: for a record whose location is not \<open>Unknown Location\<close> the partial update should
  replace the first occurrence of the old location in the title by the new location.
  The program passes the new location to \<open>replace\<close> as a replacement template, so a
  location with a dollar sign is not inserted as typed: for the title
  \<open>Paris - 2024-05-01\<close>, the location \<open>Paris\<close> and the new location \<open>Big $$ Casino\<close>
  the title becomes \<open>Big $ Casino - 2024-05-01\<close>, while the textual replacement gives
  \<open>Big $$ Casino - 2024-05-01\<close>.
\<close>

theorem dollar_location_title:
  "title (memories (handleLocationUpdate 6 (lit ''Big $$ Casino'') None
            (initial_state\<lparr>memories := [paris_memory]\<rparr>)) ! 0)
     = lit ''Big $ Casino - 2024-05-01''
   \<and> replace_first (title paris_memory) (location paris_memory) (lit ''Big $$ Casino'')
     = lit ''Big $$ Casino - 2024-05-01''"
  by (simp add: handleLocationUpdate_def update_location_only_def paris_memory_def
      memory0_def initial_state_def replace_def lit_def)

subsection \<open>Search\<close>

text \<open>
  C2: for a search with a term that is not blank. When the session is present and the
  backend answers, the store becomes the list of the response, as it is and in its
  order, whatever the sort criterion, and the error slot is cleared. When the request is
  rejected, or there is no session (then nothing is sent), the store is what it was and
  the error slot holds a message.
\<close>

theorem search_replaces_or_keeps_store:
  assumes "trim (searchTerm s) \<noteq> []"
  shows "(\<forall>sid data.
            session env = Some sid \<and> sid \<noteq> []
            \<and> search_response env (SearchRequest sid (searchTerm s) (memoryType s) (sortBy s))
                = Resolved data
            \<longrightarrow> memories (snd (searchMemories env s)) = data
                \<and> error (snd (searchMemories env s)) = None)
       \<and> (\<forall>sid err.
            session env = Some sid \<and> sid \<noteq> []
            \<and> search_response env (SearchRequest sid (searchTerm s) (memoryType s) (sortBy s))
                = Rejected err
            \<longrightarrow> memories (snd (searchMemories env s)) = memories s
                \<and> error (snd (searchMemories env s)) = Some (error_message err))
       \<and> (session env = None \<or> session env = Some []
            \<longrightarrow> fst (searchMemories env s) = []
                \<and> memories (snd (searchMemories env s)) = memories s
                \<and> error (snd (searchMemories env s)) = Some no_session_message)"
  using assms
  by (auto simp: searchMemories_def search_try_def getSessionId_def error_message_def Let_def)

theorem search_replaces_or_keeps_store_witness:
  "memories (snd (searchMemories serving_env cat_state)) = half_and_zero
   \<and> error (snd (searchMemories serving_env cat_state)) = None
   \<and> memories (snd (searchMemories offline_env cat_state)) = four_memories
   \<and> error (snd (searchMemories offline_env cat_state)) = Some (lit ''Network Error'')"
proof -
  have h: "trim (searchTerm cat_state) \<noteq> []"
    by (simp add: cat_state_def trim_def lit_def is_white_space_def white_space_units_def)
  note served = search_replaces_or_keeps_store [OF h, of serving_env]
  note failed = search_replaces_or_keeps_store [OF h, of offline_env]
  have a: "memories (snd (searchMemories serving_env cat_state)) = half_and_zero
         \<and> error (snd (searchMemories serving_env cat_state)) = None"
    using served [THEN conjunct1, rule_format, of "lit ''s1''" half_and_zero]
    by (simp add: serving_env_def lit_def)
  have b: "memories (snd (searchMemories offline_env cat_state)) = four_memories
         \<and> error (snd (searchMemories offline_env cat_state)) = Some (lit ''Network Error'')"
    using failed [THEN conjunct2, THEN conjunct1, rule_format,
                  of "lit ''s1''" "ErrorObject (lit ''Network Error'')"]
    by (simp add: offline_env_def lit_def error_message_def cat_state_def)
  show ?thesis using a b by simp
qed

subsection \<open>Keyword extraction\<close>

lemma lit_string_neq [simp]:
  "lit ''undefined'' \<noteq> lit ''string''" "lit ''object'' \<noteq> lit ''string''"
  "lit ''boolean'' \<noteq> lit ''string''" "lit ''number'' \<noteq> lit ''string''"
  by (simp_all add: lit_def)

lemma keyword_filter_contribution:
  "keyword_filter kw = Some (contribution kw \<noteq> None)"
  by (cases kw) (auto simp: keyword_filter_def split: option.splits)

lemma keyword_map_contribution:
  "contribution kw = Some v \<Longrightarrow> keyword_map kw = Some v"
  by (cases kw) (auto simp: keyword_map_def split: if_splits option.splits)

lemma filter_throwing_total:
  "filter_throwing keyword_filter kws = Some (filter (\<lambda>kw. contribution kw \<noteq> None) kws)"
  by (induction kws) (simp_all add: keyword_filter_contribution)

lemma map_throwing_kept:
  "map_throwing keyword_map (filter (\<lambda>kw. contribution kw \<noteq> None) kws)
     = Some (List.map_filter contribution kws)"
proof (induction kws)
  case Nil
  then show ?case by simp
next
  case (Cons kw kws)
  show ?case
  proof (cases "contribution kw")
    case None
    then show ?thesis using Cons by simp
  next
    case (Some v)
    then show ?thesis using Cons keyword_map_contribution [OF Some] by simp
  qed
qed

text \<open>
  C7, as stated: the extracted keywords hold every plain string of the list. The filter
  starts with \<open>kw &&\<close>, and the empty string is falsy: a list whose only entry is the
  empty string yields no keyword.
\<close>

theorem empty_string_keyword_counterexample:
  "typeof (JStr []) = lit ''string'' \<and> extract_keywords [JStr []] = Some []"
  by (simp add: extract_keywords_def keyword_filter_def)

text \<open>
  C7, amended: the extraction never throws, and the extracted keywords are, in the order
  of the list, the non-empty strings and the \<open>text\<close> values of the objects whose \<open>type\<close>
  is \<open>primary\<close> (\<open>undefined\<close> for such an object without \<open>text\<close>); every other entry
  (the empty string, \<open>null\<close>, a number, a boolean, an array, an object of another or no
  \<open>type\<close>) is dropped.
\<close>

theorem extracted_keywords:
  "extract_keywords kws = Some (List.map_filter contribution kws)"
  by (simp only: extract_keywords_def filter_throwing_total map_throwing_kept option.case)

theorem extracted_keywords_witness:
  "extract_keywords mixed_keywords
   = Some [JStr (lit ''cat''), JStr (lit ''mat''), JUndefined]"
  using extracted_keywords [of mixed_keywords]
  by (simp add: mixed_keywords_def lit_def)

subsection \<open>Weight adjustment\<close>

lemma increase_success:
  assumes "session env = Some sid" and "sid \<noteq> []"
    and "adjust_response env (AdjustWeightRequest mid sid (1 / 10)) = Resolved nw"
  shows "handleIncreaseWeight env mid s =
           ([AdjustWeightRequest mid sid (1 / 10)],
            s\<lparr>memories :=
                sortMemories (getTime env)
                  (map (\<lambda>m. if id_m m = mid then m\<lparr>weight := nw, impact_weight := nw\<rparr> else m)
                     (memories s))
                  (sortBy s)\<rparr>)"
  using assms by (simp add: handleIncreaseWeight_def getSessionId_def)

lemma decrease_success:
  assumes "session env = Some sid" and "sid \<noteq> []"
    and "adjust_response env (AdjustWeightRequest mid sid (- (1 / 10))) = Resolved nw"
  shows "handleDecreaseWeight env mid s =
           ([AdjustWeightRequest mid sid (- (1 / 10))],
            s\<lparr>memories :=
                sortMemories (getTime env)
                  (map (\<lambda>m. if id_m m = mid then m\<lparr>weight := nw\<rparr> else m) (memories s))
                  (sortBy s)\<rparr>)"
  using assms by (simp add: handleDecreaseWeight_def getSessionId_def)

lemma increase_map_weight:
  "\<forall>m \<in> set (map (\<lambda>m. if id_m m = mid then m\<lparr>weight := nw, impact_weight := nw\<rparr> else m) ms).
     id_m m = mid \<longrightarrow> weight m = nw \<and> impact_weight m = nw"
proof (intro ballI impI)
  fix m
  assume "m \<in> set (map (\<lambda>m. if id_m m = mid then m\<lparr>weight := nw, impact_weight := nw\<rparr> else m) ms)"
    and eq: "id_m m = mid"
  then obtain x where x: "m = (if id_m x = mid then x\<lparr>weight := nw, impact_weight := nw\<rparr> else x)"
    unfolding set_map by blast
  show "weight m = nw \<and> impact_weight m = nw"
  proof (cases "id_m x = mid")
    case True
    then show ?thesis using x by simp
  next
    case False
    then show ?thesis using x eq by simp
  qed
qed

lemma decrease_map_weight:
  "\<forall>m \<in> set (map (\<lambda>m. if id_m m = mid then m\<lparr>weight := nw\<rparr> else m) ms).
     id_m m = mid \<longrightarrow> weight m = nw"
proof (intro ballI impI)
  fix m
  assume "m \<in> set (map (\<lambda>m. if id_m m = mid then m\<lparr>weight := nw\<rparr> else m) ms)"
    and eq: "id_m m = mid"
  then obtain x where x: "m = (if id_m x = mid then x\<lparr>weight := nw\<rparr> else x)"
    unfolding set_map by blast
  show "weight m = nw"
  proof (cases "id_m x = mid")
    case True
    then show ?thesis using x by simp
  next
    case False
    then show ?thesis using x eq by simp
  qed
qed

lemma decrease_map_impact_weight:
  "map (\<lambda>m. (id_m m, impact_weight m))
     (map (\<lambda>m. if id_m m = mid then m\<lparr>weight := nw\<rparr> else m) ms)
   = map (\<lambda>m. (id_m m, impact_weight m)) ms"
  by (induction ms) simp_all

text \<open>
  C3: when the session is present and the backend answers an adjustment with a new
  weight, the store after the increase, and after the decrease, holds exactly the records
  of the store before, each record with the given identifier carrying the weight the
  backend sent (and, after an increase, that same \<open>impact_weight\<close>) and every other
  field and record as it was; no weight is computed from the old one. The store is
  sorted under the criterion of the state: in descending order of the criterion's key,
  records of equal key in the order they had before. The order is stated for a
  consistent comparison, that is for the criteria \<open>weight\<close> and \<open>relevance\<close> always and
  for \<open>date\<close> when the dates of the store all parse or all fail to parse.
\<close>

theorem weight_adjust_takes_server_weight:
  assumes "session env = Some sid" and "sid \<noteq> []"
    and "increased =
           map (\<lambda>m. if id_m m = mid then m\<lparr>weight := nw, impact_weight := nw\<rparr> else m)
             (memories s)"
    and "decreased = map (\<lambda>m. if id_m m = mid then m\<lparr>weight := nw\<rparr> else m) (memories s)"
    and "key = sort_key (getTime env) (sortBy s)"
  shows "(adjust_response env (AdjustWeightRequest mid sid (1 / 10)) = Resolved nw \<longrightarrow>
            mset (memories (snd (handleIncreaseWeight env mid s))) = mset increased
            \<and> (\<forall>m \<in> set (memories (snd (handleIncreaseWeight env mid s))).
                 id_m m = mid \<longrightarrow> weight m = nw)
            \<and> (dates_uniform (getTime env) (sortBy s) (memories s) \<longrightarrow>
                 descending_by key (memories (snd (handleIncreaseWeight env mid s)))
                 \<and> of_key key k (memories (snd (handleIncreaseWeight env mid s)))
                     = of_key key k increased))
       \<and> (adjust_response env (AdjustWeightRequest mid sid (- (1 / 10))) = Resolved nw \<longrightarrow>
            mset (memories (snd (handleDecreaseWeight env mid s))) = mset decreased
            \<and> (\<forall>m \<in> set (memories (snd (handleDecreaseWeight env mid s))).
                 id_m m = mid \<longrightarrow> weight m = nw)
            \<and> (dates_uniform (getTime env) (sortBy s) (memories s) \<longrightarrow>
                 descending_by key (memories (snd (handleDecreaseWeight env mid s)))
                 \<and> of_key key k (memories (snd (handleDecreaseWeight env mid s)))
                     = of_key key k decreased))"
proof (intro conjI impI)
  assume r: "adjust_response env (AdjustWeightRequest mid sid (1 / 10)) = Resolved nw"
  have i: "memories (snd (handleIncreaseWeight env mid s))
             = sortMemories (getTime env) increased (sortBy s)"
    by (simp add: increase_success [OF assms(1,2) r] assms(3))
  show "mset (memories (snd (handleIncreaseWeight env mid s))) = mset increased"
    unfolding i by (rule mset_sortMemories)
  show "\<forall>m \<in> set (memories (snd (handleIncreaseWeight env mid s))).
          id_m m = mid \<longrightarrow> weight m = nw"
    unfolding i set_sortMemories assms(3)
    using increase_map_weight [of mid nw "memories s"] by blast
  assume u: "dates_uniform (getTime env) (sortBy s) (memories s)"
  have "dates_uniform (getTime env) (sortBy s) increased"
    unfolding assms(3) by (rule dates_uniform_map [OF u]) simp
  then show "descending_by key (memories (snd (handleIncreaseWeight env mid s)))"
    and "of_key key k (memories (snd (handleIncreaseWeight env mid s))) = of_key key k increased"
    unfolding i assms(5) using sortMemories_sorted_stable by blast+
next
  assume r: "adjust_response env (AdjustWeightRequest mid sid (- (1 / 10))) = Resolved nw"
  have d: "memories (snd (handleDecreaseWeight env mid s))
             = sortMemories (getTime env) decreased (sortBy s)"
    by (simp add: decrease_success [OF assms(1,2) r] assms(4))
  show "mset (memories (snd (handleDecreaseWeight env mid s))) = mset decreased"
    unfolding d by (rule mset_sortMemories)
  show "\<forall>m \<in> set (memories (snd (handleDecreaseWeight env mid s))).
          id_m m = mid \<longrightarrow> weight m = nw"
    unfolding d set_sortMemories assms(4) by (rule decrease_map_weight)
  assume u: "dates_uniform (getTime env) (sortBy s) (memories s)"
  have "dates_uniform (getTime env) (sortBy s) decreased"
    unfolding assms(4) by (rule dates_uniform_map [OF u]) simp
  then show "descending_by key (memories (snd (handleDecreaseWeight env mid s)))"
    and "of_key key k (memories (snd (handleDecreaseWeight env mid s))) = of_key key k decreased"
    unfolding d assms(5) using sortMemories_sorted_stable by blast+
qed

theorem weight_adjust_takes_server_weight_witness:
  "memories (snd (handleIncreaseWeight serving_env 1 cat_state))
     = [memory0\<lparr>id_m := 1, weight := Some 2, impact_weight := Some 2\<rparr>,
        memory0\<lparr>id_m := 4, weight := Some (3 / 2)\<rparr>,
        memory0\<lparr>id_m := 2\<rparr>,
        memory0\<lparr>id_m := 3, weight := Some 0\<rparr>]
   \<and> memories (snd (handleDecreaseWeight serving_env 1 cat_state))
     = [memory0\<lparr>id_m := 1, weight := Some 2\<rparr>,
        memory0\<lparr>id_m := 4, weight := Some (3 / 2)\<rparr>,
        memory0\<lparr>id_m := 2\<rparr>,
        memory0\<lparr>id_m := 3, weight := Some 0\<rparr>]
   \<and> memories (snd (handleDecreaseWeight dated_env 1 dated_state))
     = [memory0\<lparr>id_m := 2, date := lit ''2022-01-01''\<rparr>,
        memory0\<lparr>id_m := 3, date := lit ''2021-01-01''\<rparr>,
        memory0\<lparr>id_m := 1, date := lit ''2020-01-01'', weight := Some 2\<rparr>]
   \<and> dates_uniform calendar Date dated_memories"
proof -
  have h1: "session serving_env = Some (lit ''s1'')" by (simp add: serving_env_def)
  have h2: "lit ''s1'' \<noteq> []" by (simp add: lit_def)
  have h3: "adjust_response serving_env (AdjustWeightRequest 1 (lit ''s1'') (1 / 10)) = Resolved (Some 2)"
    by (simp add: serving_env_def)
  have h4: "adjust_response serving_env (AdjustWeightRequest 1 (lit ''s1'') (- (1 / 10))) = Resolved (Some 2)"
    by (simp add: serving_env_def)
  have g: "getTime serving_env = no_dates" by (simp add: serving_env_def)
  have k1: "session dated_env = Some (lit ''s1'')" by (simp add: dated_env_def serving_env_def)
  have k4: "adjust_response dated_env (AdjustWeightRequest 1 (lit ''s1'') (- (1 / 10))) = Resolved (Some 2)"
    by (simp add: dated_env_def serving_env_def)
  have kg: "getTime dated_env = calendar" by (simp add: dated_env_def)
  have u: "dates_uniform calendar Date dated_memories"
    by (simp add: dates_uniform_def dated_memories_def calendar_def lit_def)
  have a: "memories (snd (handleIncreaseWeight serving_env 1 cat_state))
     = [memory0\<lparr>id_m := 1, weight := Some 2, impact_weight := Some 2\<rparr>,
        memory0\<lparr>id_m := 4, weight := Some (3 / 2)\<rparr>,
        memory0\<lparr>id_m := 2\<rparr>,
        memory0\<lparr>id_m := 3, weight := Some 0\<rparr>]
   \<and> memories (snd (handleDecreaseWeight serving_env 1 cat_state))
     = [memory0\<lparr>id_m := 1, weight := Some 2\<rparr>,
        memory0\<lparr>id_m := 4, weight := Some (3 / 2)\<rparr>,
        memory0\<lparr>id_m := 2\<rparr>,
        memory0\<lparr>id_m := 3, weight := Some 0\<rparr>]"
    using weight_adjust_takes_server_weight [OF h1 h2 refl refl refl, of 1 "Some 2" cat_state] h3 h4
    by (simp add: increase_success [OF h1 h2 h3] decrease_success [OF h1 h2 h4] g
        cat_state_def initial_state_def sortMemories_def array_sort_def
        SortCompare_def compareMemories_def number_or_def four_memories_def memory0_def)
  have b: "memories (snd (handleDecreaseWeight dated_env 1 dated_state))
     = [memory0\<lparr>id_m := 2, date := lit ''2022-01-01''\<rparr>,
        memory0\<lparr>id_m := 3, date := lit ''2021-01-01''\<rparr>,
        memory0\<lparr>id_m := 1, date := lit ''2020-01-01'', weight := Some 2\<rparr>]"
    using weight_adjust_takes_server_weight [OF k1 h2 refl refl refl, of 1 "Some 2" dated_state] k4
    by (simp add: decrease_success [OF k1 h2 k4] kg
        dated_state_def initial_state_def sortMemories_def array_sort_def
        SortCompare_def compareMemories_def dated_memories_def memory0_def calendar_def lit_def)
  show ?thesis using a b u by simp
qed

text \<open>
  C10: after an answered increase the store holds, in some order, exactly the records of
  the store before, each record with the given identifier changed in \<open>weight\<close> and
  \<open>impact_weight\<close>, both set to the new weight, and in nothing else. After an answered
  decrease it holds exactly the records of the store before, each record with the given
  identifier changed in \<open>weight\<close> only: its \<open>impact_weight\<close> and every other field are
  as they were.
\<close>

theorem increase_sets_both_weights:
  assumes "session env = Some sid" and "sid \<noteq> []"
  shows "(adjust_response env (AdjustWeightRequest mid sid (1 / 10)) = Resolved nw \<longrightarrow>
            mset (memories (snd (handleIncreaseWeight env mid s)))
              = image_mset
                  (\<lambda>m. if id_m m = mid then m\<lparr>weight := nw, impact_weight := nw\<rparr> else m)
                  (mset (memories s))
            \<and> (\<forall>m \<in> set (memories (snd (handleIncreaseWeight env mid s))).
                 id_m m = mid \<longrightarrow> weight m = nw \<and> impact_weight m = nw))
       \<and> (adjust_response env (AdjustWeightRequest mid sid (- (1 / 10))) = Resolved nw \<longrightarrow>
            mset (memories (snd (handleDecreaseWeight env mid s)))
              = image_mset (\<lambda>m. if id_m m = mid then m\<lparr>weight := nw\<rparr> else m)
                  (mset (memories s))
            \<and> (\<forall>m \<in> set (memories (snd (handleDecreaseWeight env mid s))).
                 id_m m = mid \<longrightarrow> weight m = nw)
            \<and> image_mset (\<lambda>m. (id_m m, impact_weight m))
                 (mset (memories (snd (handleDecreaseWeight env mid s))))
                = image_mset (\<lambda>m. (id_m m, impact_weight m)) (mset (memories s)))"
proof (intro conjI impI)
  let ?inc = "map (\<lambda>m. if id_m m = mid then m\<lparr>weight := nw, impact_weight := nw\<rparr> else m)
                (memories s)"
  assume r: "adjust_response env (AdjustWeightRequest mid sid (1 / 10)) = Resolved nw"
  have i: "memories (snd (handleIncreaseWeight env mid s))
             = sortMemories (getTime env) ?inc (sortBy s)"
    by (simp add: increase_success [OF assms r])
  show "mset (memories (snd (handleIncreaseWeight env mid s)))
          = image_mset
              (\<lambda>m. if id_m m = mid then m\<lparr>weight := nw, impact_weight := nw\<rparr> else m)
              (mset (memories s))"
    unfolding i mset_sortMemories by (rule mset_map)
  show "\<forall>m \<in> set (memories (snd (handleIncreaseWeight env mid s))).
          id_m m = mid \<longrightarrow> weight m = nw \<and> impact_weight m = nw"
    unfolding i set_sortMemories by (rule increase_map_weight)
next
  let ?dec = "map (\<lambda>m. if id_m m = mid then m\<lparr>weight := nw\<rparr> else m) (memories s)"
  assume r: "adjust_response env (AdjustWeightRequest mid sid (- (1 / 10))) = Resolved nw"
  have d: "memories (snd (handleDecreaseWeight env mid s))
             = sortMemories (getTime env) ?dec (sortBy s)"
    by (simp add: decrease_success [OF assms r])
  show "mset (memories (snd (handleDecreaseWeight env mid s)))
          = image_mset (\<lambda>m. if id_m m = mid then m\<lparr>weight := nw\<rparr> else m)
              (mset (memories s))"
    unfolding d mset_sortMemories by (rule mset_map)
  show "\<forall>m \<in> set (memories (snd (handleDecreaseWeight env mid s))).
          id_m m = mid \<longrightarrow> weight m = nw"
    unfolding d set_sortMemories by (rule decrease_map_weight)
  have "mset (map (\<lambda>m. (id_m m, impact_weight m)) ?dec)
          = mset (map (\<lambda>m. (id_m m, impact_weight m)) (memories s))"
    by (simp only: decrease_map_impact_weight)
  then show "image_mset (\<lambda>m. (id_m m, impact_weight m))
            (mset (memories (snd (handleDecreaseWeight env mid s))))
           = image_mset (\<lambda>m. (id_m m, impact_weight m)) (mset (memories s))"
    unfolding d mset_sortMemories mset_map .
qed

theorem increase_sets_both_weights_witness:
  "map (\<lambda>m. (id_m m, weight m, impact_weight m))
     (memories (snd (handleIncreaseWeight serving_env 1 cat_state)))
     = [(1, Some 2, Some 2), (4, Some (3 / 2), None), (2, None, None), (3, Some 0, None)]
   \<and> map (\<lambda>m. (id_m m, weight m, impact_weight m))
     (memories (snd (handleDecreaseWeight serving_env 1 cat_state)))
     = [(1, Some 2, None), (4, Some (3 / 2), None), (2, None, None), (3, Some 0, None)]"
proof -
  have h1: "session serving_env = Some (lit ''s1'')" by (simp add: serving_env_def)
  have h2: "lit ''s1'' \<noteq> []" by (simp add: lit_def)
  have h3: "adjust_response serving_env (AdjustWeightRequest 1 (lit ''s1'') (1 / 10)) = Resolved (Some 2)"
    by (simp add: serving_env_def)
  have h4: "adjust_response serving_env (AdjustWeightRequest 1 (lit ''s1'') (- (1 / 10))) = Resolved (Some 2)"
    by (simp add: serving_env_def)
  have g: "getTime serving_env = no_dates" by (simp add: serving_env_def)
  show ?thesis
    using increase_sets_both_weights [OF h1 h2, of 1 "Some 2" cat_state] h3 h4
    by (simp add: increase_success [OF h1 h2 h3] decrease_success [OF h1 h2 h4] g
        cat_state_def initial_state_def sortMemories_def array_sort_def
        SortCompare_def compareMemories_def number_or_def four_memories_def memory0_def)
qed

end
